theory Spec2Isabelle
  imports Main "HOL-Library.AList"
begin

section \<open>Python values used by the pipeline\<close>

text \<open>
  A Python \<open>str\<close> is modelled as a \<open>string\<close> holding its UTF-8 bytes, so the
  non-ASCII characters of the source's literals appear as byte sequences. Substring search
  on UTF-8 bytes agrees with substring search on code points for well-formed text.
\<close>

text \<open>\<open>sub in s\<close> for two Python strings.\<close>

fun starts_with :: "string \<Rightarrow> string \<Rightarrow> bool" where
  "starts_with [] s = True"
| "starts_with (c # cs) [] = False"
| "starts_with (c # cs) (d # ds) = (c = d \<and> starts_with cs ds)"

fun str_contains :: "string \<Rightarrow> string \<Rightarrow> bool" where
  "str_contains sub [] = (sub = [])"
| "str_contains sub (d # ds) = (starts_with sub (d # ds) \<or> str_contains sub ds)"

text \<open>\<open>sep.join(xs)\<close> for a list of strings.\<close>

fun join :: "string \<Rightarrow> string list \<Rightarrow> string" where
  "join sep [] = []"
| "join sep [x] = x"
| "join sep (x # y # ys) = x @ sep @ join sep (y # ys)"

text \<open>\<open>str(b)\<close> for a Python \<open>bool\<close>, as an f-string formats it.\<close>

definition str_of_bool :: "bool \<Rightarrow> string" where
  "str_of_bool b = (if b then ''True'' else ''False'')"

text \<open>
  An exception object that \<open>except Exception\<close> catches: the name of its class and the
  text \<open>str(e)\<close> gives.
\<close>

datatype exn = Exn (exn_class: string) (exn_str: string)

text \<open>
  \<open>isinstance(e, ValueError)\<close> for the built-in exception classes: \<open>ValueError\<close> and its
  subclasses \<open>UnicodeError\<close>, \<open>UnicodeEncodeError\<close>, \<open>UnicodeDecodeError\<close> and
  \<open>UnicodeTranslateError\<close>.
\<close>

definition is_ValueError :: "exn \<Rightarrow> bool" where
  "is_ValueError e =
     (exn_class e \<in> set [''ValueError'', ''UnicodeError'', ''UnicodeEncodeError'',
                           ''UnicodeDecodeError'', ''UnicodeTranslateError''])"

text \<open>The values of the dictionaries passed to \<open>MCPClient.notify\<close>.\<close>

datatype pyval = Str string | StrList "string list"

type_synonym message = "(string \<times> pyval) list"

section \<open>Calls that may raise and that change the world\<close>

text \<open>
  A call takes the current world and gives back either the exception it raised or the
  value it returned, together with the world it left behind.
\<close>

type_synonym ('a, 's) call = "'s \<Rightarrow> (exn + 'a) \<times> 's"

definition py_return :: "'a \<Rightarrow> ('a, 's) call" where
  "py_return a = (\<lambda>s. (Inr a, s))"

text \<open>
  Statement sequencing: the second statement runs only when the first one returned; an
  exception of the first leaves the enclosing function at once.
\<close>

definition py_bind :: "('a, 's) call \<Rightarrow> ('a \<Rightarrow> ('b, 's) call) \<Rightarrow> ('b, 's) call" where
  "py_bind m f = (\<lambda>s. case m s of (Inl e, s') \<Rightarrow> (Inl e, s') | (Inr a, s') \<Rightarrow> f a s')"

text \<open>\<open>raise e\<close>\<close>

definition py_raise :: "exn \<Rightarrow> ('a, 's) call" where
  "py_raise e = (\<lambda>s. (Inl e, s))"

text \<open>
  \<open>try: body except Exception as e: handler\<close>: the handler runs in the world the body left
  when it raised; an exception of the handler itself leaves the statement.
\<close>

definition py_try :: "('a, 's) call \<Rightarrow> (exn \<Rightarrow> ('a, 's) call) \<Rightarrow> ('a, 's) call" where
  "py_try body handler =
     (\<lambda>s. case body s of (Inl e, s') \<Rightarrow> handler e s' | (Inr a, s') \<Rightarrow> (Inr a, s'))"

text \<open>
  The world of the agents: the files on disk (path to content) and the state \<open>ext\<close> of
  everything else the agents talk to (the model client, the usage counters, the MCP
  server).
\<close>

type_synonym fs = "string \<rightharpoonup> string"

record 'x world =
  files :: fs
  ext :: 'x

text \<open>A call of the tracker, the model client or the MCP client: it works on \<open>ext\<close> only.\<close>

definition on_ext :: "('a, 'x) call \<Rightarrow> ('a, 'x world) call" where
  "on_ext m = (\<lambda>w. case m (ext w) of (r, x') \<Rightarrow> (r, w\<lparr>ext := x'\<rparr>))"

section \<open>Data model\<close>

record RequirementSpec =
  languages :: "string list"
  tenses :: "string list"
  persons :: "string list"
  handle_irregular :: bool

record GeneratedCode =
  filename :: string
  code :: string
  description :: string
  dependencies :: "string list"

text \<open>
  Modelled from the spec: \<open>TrackingAgent\<close> (agents/tracking_agent.py) is not among the
  sources. Its \<open>generate_content(prompt)\<close> delegates to the model client and records the
  usage counters: it returns the model's text or raises, and touches no file.
\<close>

record 'x TrackingAgent =
  generate_content :: "string \<Rightarrow> (string, 'x) call"

text \<open>
  The two fields that \<open>CodeGenAgent.__init__\<close> and \<open>TestAgent.__init__\<close> both set. The
  optional MCP client is given by its \<open>notify\<close> method.
\<close>

record 'x agent =
  tracking_agent :: "'x TrackingAgent"
  mcp_client :: "(message \<Rightarrow> (unit, 'x) call) option"

text \<open>
  What the agents import from utils/helpers.py and config/api_config.py, neither of which is
  among the sources: the function \<open>clean_code_block\<close>, the two directory constants, and
  \<open>write_fault\<close>, which says when a write to the disk fails, with which exception, and
  what the failed attempt leaves on the disk.
\<close>

record helpers =
  clean_code_block :: "string \<Rightarrow> string"
  write_fault :: "fs \<Rightarrow> string \<Rightarrow> string \<Rightarrow> (exn \<times> fs) option"
  CONJUGATOR_DIR :: string
  TESTS_DIR :: string

text \<open>
  Modelled from the spec: \<open>save_to_file(content, filepath)\<close> (utils/helpers.py) is not
  among the sources. A write is a whole-file overwrite at the given path, with no backup of
  the prior content; a filesystem failure raises.
\<close>

definition save_to_file :: "helpers \<Rightarrow> string \<Rightarrow> string \<Rightarrow> (unit, 'x world) call" where
  "save_to_file h content filepath =
     (\<lambda>w. case write_fault h (files w) content filepath of
             Some (e, fs') \<Rightarrow> (Inl e, w\<lparr>files := fs'\<rparr>)
           | None \<Rightarrow> (Inr (), w\<lparr>files := (files w)(filepath \<mapsto> content)\<rparr>))"

text \<open>\<open>if self.mcp_client: self.mcp_client.notify(msg)\<close>\<close>

definition notify :: "'x agent \<Rightarrow> message \<Rightarrow> (unit, 'x world) call" where
  "notify ag msg = (case mcp_client ag of None \<Rightarrow> py_return () | Some n \<Rightarrow> on_ext (n msg))"

section \<open>CodeGenAgent (agents/code_gen_agent.py)\<close>

text \<open>The f-string \<open>prompt\<close> of \<open>_generate_conjugator\<close>.\<close>

definition conjugator_prompt :: "RequirementSpec \<Rightarrow> string" where
  "conjugator_prompt spec = concat [
     ''\<newline>'',
     ''Generate a complete Python module for a verb conjugator with these requirements:\<newline>'',
     ''\<newline>'',
     ''Languages: '', join '', '' (languages spec), ''\<newline>'',
     ''Tenses: '', join '', '' (tenses spec), ''\<newline>'',
     ''Persons: '', join '', '' (persons spec), ''\<newline>'',
     ''Handle Irregular: '', str_of_bool (handle_irregular spec), ''\<newline>'',
     ''\<newline>'',
     ''The code should:\<newline>'',
     ''1. Use mlconjug3 library for conjugations\<newline>'',
     ''2. Have a VerbConjugator class with a conjugate() method\<newline>'',
     ''3. Handle multiple languages and tenses\<newline>'',
     ''4. Return conjugations in a clear format\<newline>'',
     ''5. Include error handling\<newline>'',
     ''6. Be well-commented\<newline>'',
     ''\<newline>'',
     ''Return ONLY the Python code, no explanations.\<newline>'']"

definition generate_conjugator ::
  "helpers \<Rightarrow> 'x agent \<Rightarrow> RequirementSpec \<Rightarrow> 'd \<Rightarrow> (GeneratedCode, 'x world) call" where
  "generate_conjugator h ag spec design =
    (let prompt = conjugator_prompt spec
     in py_bind (on_ext (generate_content (tracking_agent ag) prompt)) (\<lambda>code0.
        let code1 = clean_code_block h code0
        in py_return \<lparr>filename = ''verb_conjugator.py'', code = code1,
             description = ''Main verb conjugator module'',
             dependencies = [''mlconjug3'']\<rparr>))"

text \<open>The f-string \<open>prompt\<close> of \<open>_generate_ui\<close>.\<close>

definition ui_prompt :: "RequirementSpec \<Rightarrow> string" where
  "ui_prompt spec = concat [
     ''\<newline>'',
     ''Generate a Gradio UI for a verb conjugator that:\<newline>'',
     ''1. Imports from verb_conjugator module\<newline>'',
     ''2. Has input fields for: verb, language, tense\<newline>'',
     ''3. Displays conjugation results in a clear format\<newline>'',
     ''4. Handles errors gracefully\<newline>'',
     ''5. Is user-friendly\<newline>'',
     ''\<newline>'',
     ''Languages to support: '', join '', '' (languages spec), ''\<newline>'',
     ''Tenses to support: '', join '', '' (tenses spec), ''\<newline>'',
     ''\<newline>'',
     ''Return ONLY the Python code for the Gradio interface.\<newline>'']"

definition generate_ui ::
  "helpers \<Rightarrow> 'x agent \<Rightarrow> RequirementSpec \<Rightarrow> (GeneratedCode, 'x world) call" where
  "generate_ui h ag spec =
    (let prompt = ui_prompt spec
     in py_bind (on_ext (generate_content (tracking_agent ag) prompt)) (\<lambda>code0.
        let code1 = clean_code_block h code0
        in py_return \<lparr>filename = ''gradio_ui.py'', code = code1,
             description = ''Gradio user interface'',
             dependencies = [''gradio'', ''verb_conjugator'']\<rparr>))"

text \<open>
  The loop \<open>for gen_code in generated_files: save_to_file(gen_code.code, filepath)\<close> with
  \<open>filepath = f"{CONJUGATOR_DIR}/{gen_code.filename}"\<close>.
\<close>

fun save_generated_files :: "helpers \<Rightarrow> GeneratedCode list \<Rightarrow> (unit, 'x world) call" where
  "save_generated_files h [] = py_return ()"
| "save_generated_files h (gen_code # rest) =
     (let filepath = CONJUGATOR_DIR h @ ''/'' @ filename gen_code
      in py_bind (save_to_file h (code gen_code) filepath) (\<lambda>_.
         save_generated_files h rest))"

definition generate_code ::
  "helpers \<Rightarrow> 'x agent \<Rightarrow> RequirementSpec \<Rightarrow> 'd \<Rightarrow> (GeneratedCode list, 'x world) call" where
  "generate_code h ag spec design =
     py_bind (notify ag [(''event'', Str ''code_generation_started'')]) (\<lambda>_.
     let generated_files = []
     in py_bind (generate_conjugator h ag spec design) (\<lambda>conjugator_code.
     let generated_files = generated_files @ [conjugator_code]
     in py_bind (generate_ui h ag spec) (\<lambda>ui_code.
     let generated_files = generated_files @ [ui_code]
     in py_bind (save_generated_files h generated_files) (\<lambda>_.
     py_bind (notify ag [(''event'', Str ''code_generation_completed''),
                         (''files'', StrList (map filename generated_files))]) (\<lambda>_.
     py_return generated_files)))))"

section \<open>TestAgent (agents/test_agent.py)\<close>

text \<open>
  \<open>next((gc for gc in generated_code if "conjugator" in gc.filename), None)\<close>: the first
  artifact whose filename contains the substring, or \<open>None\<close> when there is none.
\<close>

definition conjugator_lookup :: "GeneratedCode list \<Rightarrow> GeneratedCode option" where
  "conjugator_lookup generated_code =
     find (\<lambda>gc. str_contains ''conjugator'' (filename gc)) generated_code"

text \<open>The f-string \<open>prompt\<close> of \<open>generate_tests\<close>.\<close>

definition tests_prompt :: "RequirementSpec \<Rightarrow> string" where
  "tests_prompt spec = concat [
     ''\<newline>'',
     ''Generate comprehensive pytest test cases for a verb conjugator application.\<newline>'',
     ''\<newline>'',
     ''Requirements:\<newline>'',
     ''- Languages: '', join '', '' (languages spec), ''\<newline>'',
     ''- Tenses: '', join '', '' (tenses spec), ''\<newline>'',
     ''- Test irregular verbs: '', str_of_bool (handle_irregular spec), ''\<newline>'',
     ''\<newline>'',
     ''Generate at least 12 test cases that:\<newline>'',
     ''1. Test regular verb conjugations\<newline>'',
     ''2. Test irregular verb conjugations (if applicable)\<newline>'',
     ''3. Test multiple languages\<newline>'',
     ''4. Test multiple tenses\<newline>'',
     ''5. Test error handling (invalid inputs)\<newline>'',
     ''6. Test edge cases\<newline>'',
     ''\<newline>'',
     ''The tests should:\<newline>'',
     ''- Use pytest framework\<newline>'',
     ''- Import from verb_conjugator module\<newline>'',
     ''- Be well-documented\<newline>'',
     ''- Have clear assertions\<newline>'',
     ''- At least 80% should pass\<newline>'',
     ''\<newline>'',
     ''Return ONLY the Python test code.\<newline>'']"

definition generate_tests ::
  "helpers \<Rightarrow> 'x agent \<Rightarrow> RequirementSpec \<Rightarrow> GeneratedCode list \<Rightarrow> (string, 'x world) call" where
  "generate_tests h ag spec generated_code =
     py_bind (notify ag [(''event'', Str ''test_generation_started'')]) (\<lambda>_.
     let conjugator_code = conjugator_lookup generated_code;
         prompt = tests_prompt spec
     in py_bind (on_ext (generate_content (tracking_agent ag) prompt)) (\<lambda>test_code0.
     let test_code1 = clean_code_block h test_code0;
         test_code = (if \<not> str_contains ''import pytest'' test_code1
                      then ''import pytest\<newline>'' @ test_code1 else test_code1);
         test_filepath = TESTS_DIR h @ ''/test_conjugator.py''
     in py_bind (save_to_file h test_code test_filepath) (\<lambda>_.
     py_bind (notify ag [(''event'', Str ''test_generation_completed''),
                         (''test_file'', Str test_filepath)]) (\<lambda>_.
     py_return test_code))))"

section \<open>The orchestrator (ui/gradio_app.py)\<close>

text \<open>
  The object \<open>VerbConjugatorFactoryUI\<close>: for each agent it holds, the one method
  \<open>generate_application\<close> calls on it; the helper \<open>load_from_file\<close> and the constant
  \<open>USAGE_REPORT_FILE\<close> it imports. The parser agent, the design agent,
  \<open>save_usage_report\<close> and \<open>load_from_file\<close> are not among the sources: they are calls that
  return or raise and may change the world \<open>'w\<close> in any way.
\<close>

record ('w, 'd) VerbConjugatorFactoryUI =
  parser_agent :: "string \<Rightarrow> (RequirementSpec, 'w) call"
  design_agent :: "RequirementSpec \<Rightarrow> ('d, 'w) call"
  code_gen_agent :: "RequirementSpec \<Rightarrow> 'd \<Rightarrow> (GeneratedCode list, 'w) call"
  test_agent :: "RequirementSpec \<Rightarrow> GeneratedCode list \<Rightarrow> (string, 'w) call"
  save_usage_report :: "(unit, 'w) call"
  load_from_file :: "string \<Rightarrow> (string, 'w) call"
  USAGE_REPORT_FILE :: string

text \<open>
  \<open>__init__\<close>: the code generator and the test generator are built on the shared
  tracking agent, with no MCP client. The MCP server it starts and the output directories it
  creates play no part in \<open>generate_application\<close>.
\<close>

definition init_ui ::
  "helpers \<Rightarrow> 'x TrackingAgent \<Rightarrow> (string \<Rightarrow> (RequirementSpec, 'x world) call) \<Rightarrow>
   (RequirementSpec \<Rightarrow> ('d, 'x world) call) \<Rightarrow> (unit, 'x world) call \<Rightarrow>
   (string \<Rightarrow> (string, 'x world) call) \<Rightarrow> string \<Rightarrow> ('x world, 'd) VerbConjugatorFactoryUI" where
  "init_ui h ta parse_requirements create_design save_report load report_file =
     \<lparr>parser_agent = parse_requirements,
      design_agent = create_design,
      code_gen_agent = generate_code h \<lparr>tracking_agent = ta, mcp_client = None\<rparr>,
      test_agent = generate_tests h \<lparr>tracking_agent = ta, mcp_client = None\<rparr>,
      save_usage_report = save_report,
      load_from_file = load,
      USAGE_REPORT_FILE = report_file\<rparr>"

definition create_instructions :: "RequirementSpec \<Rightarrow> string" where
  "create_instructions spec = concat [
     ''\<newline>'',
     ''# How to Run the Generated Application\<newline>'',
     ''\<newline>'',
     ''## 1. Install Dependencies\<newline>'',
     ''```bash\<newline>'',
     ''pip install mlconjug3 gradio pytest\<newline>'',
     ''```\<newline>'',
     ''\<newline>'',
     ''## 2. Run the Conjugator UI\<newline>'',
     ''```bash\<newline>'',
     ''cd generated/conjugator\<newline>'',
     ''python gradio_ui.py\<newline>'',
     ''```\<newline>'',
     ''\<newline>'',
     ''## 3. Run the Tests\<newline>'',
     ''```bash\<newline>'',
     ''cd generated/tests\<newline>'',
     ''pytest test_conjugator.py -v\<newline>'',
     ''```\<newline>'',
     ''\<newline>'',
     ''## Application Features\<newline>'',
     ''- Supported Languages: '', join '', '' (languages spec), ''\<newline>'',
     ''- Supported Tenses: '', join '', '' (tenses spec), ''\<newline>'',
     ''- Handles Irregular Verbs: '', str_of_bool (handle_irregular spec), ''\<newline>'',
     ''\<newline>'',
     ''## Usage\<newline>'',
     ''1. Open the Gradio interface in your browser\<newline>'',
     ''2. Enter a verb to conjugate\<newline>'',
     ''3. Select language and tense\<newline>'',
     ''4. View the conjugation results\<newline>'']"

type_synonym outputs = "string \<times> string \<times> string \<times> string \<times> string"

text \<open>The body of the \<open>try\<close> block of \<open>generate_application\<close>.\<close>

definition generate_application_try ::
  "('w, 'd) VerbConjugatorFactoryUI \<Rightarrow> string \<Rightarrow> (outputs, 'w) call" where
  "generate_application_try ui requirements =
    (let status = [CHR 0xF0, CHR 0x9F, CHR 0x93, CHR 0x9D] @ '' Parsing requirements...''
     in py_bind (parser_agent ui requirements) (\<lambda>spec.
     let status = status @ ''\<newline>'' @ [CHR 0xF0, CHR 0x9F, CHR 0x8E, CHR 0xA8]
                    @ '' Creating design...''
     in py_bind (design_agent ui spec) (\<lambda>design.
     let status = status @ ''\<newline>'' @ [CHR 0xF0, CHR 0x9F, CHR 0x92, CHR 0xBB]
                    @ '' Generating code...''
     in py_bind (code_gen_agent ui spec design) (\<lambda>generated_code.
     let status = status @ ''\<newline>'' @ [CHR 0xF0, CHR 0x9F, CHR 0xA7, CHR 0xAA]
                    @ '' Generating tests...''
     in py_bind (test_agent ui spec generated_code) (\<lambda>test_code.
     let status = status @ ''\<newline>'' @ [CHR 0xF0, CHR 0x9F, CHR 0x93, CHR 0x8A]
                    @ '' Saving usage report...''
     in py_bind (save_usage_report ui) (\<lambda>_.
     py_bind (load_from_file ui ''generated/conjugator/verb_conjugator.py'') (\<lambda>conjugator_code.
     py_bind (load_from_file ui ''generated/conjugator/gradio_ui.py'') (\<lambda>ui_code.
     let full_code = ''# verb_conjugator.py\<newline>'' @ conjugator_code
                       @ ''\<newline>\<newline># gradio_ui.py\<newline>'' @ ui_code
     in py_bind (load_from_file ui (USAGE_REPORT_FILE ui)) (\<lambda>usage_report.
     let instructions = create_instructions spec;
         status = status @ ''\<newline>\<newline>'' @ [CHR 0xE2, CHR 0x9C, CHR 0x85]
                    @ '' Generation complete!''
     in py_return (status, full_code, test_code, usage_report, instructions))))))))))"

text \<open>
  \<open>generate_application\<close>: the \<open>try\<close> block under its handler \<open>except Exception as e\<close>.
  The function itself returns a tuple in every case.
\<close>

definition generate_application ::
  "('w, 'd) VerbConjugatorFactoryUI \<Rightarrow> string \<Rightarrow> 'w \<Rightarrow> outputs \<times> 'w" where
  "generate_application ui requirements =
     (\<lambda>w. case generate_application_try ui requirements w of
             (Inr result, w') \<Rightarrow> (result, w')
           | (Inl e, w') \<Rightarrow>
               (let error_msg = [CHR 0xE2, CHR 0x9D, CHR 0x8C] @ '' Error: '' @ exn_str e
                in ((error_msg, [], [], [], []), w')))"

subsection \<open>Observing the calls of a run\<close>

text \<open>
  To speak about which agent calls a run makes, each of the five agent methods is wrapped so
  that it appends its name to a log carried beside the world; \<open>load_from_file\<close> is carried
  over unlogged. The wrapped calls behave on the world exactly as the original ones.
\<close>

datatype step = ParseRequirements | CreateDesign | GenerateCode | GenerateTests | SaveUsageReport

definition logged :: "step \<Rightarrow> ('a, 'w) call \<Rightarrow> ('a, step list \<times> 'w) call" where
  "logged st m = (\<lambda>(tr, w). case m w of (r, w') \<Rightarrow> (r, (tr @ [st], w')))"

definition unlogged :: "('a, 'w) call \<Rightarrow> ('a, step list \<times> 'w) call" where
  "unlogged m = (\<lambda>(tr, w). case m w of (r, w') \<Rightarrow> (r, (tr, w')))"

definition traced ::
  "('w, 'd) VerbConjugatorFactoryUI \<Rightarrow> (step list \<times> 'w, 'd) VerbConjugatorFactoryUI" where
  "traced ui =
     \<lparr>parser_agent = (\<lambda>requirements. logged ParseRequirements (parser_agent ui requirements)),
      design_agent = (\<lambda>spec. logged CreateDesign (design_agent ui spec)),
      code_gen_agent = (\<lambda>spec design. logged GenerateCode (code_gen_agent ui spec design)),
      test_agent = (\<lambda>spec gcs. logged GenerateTests (test_agent ui spec gcs)),
      save_usage_report = logged SaveUsageReport (save_usage_report ui),
      load_from_file = (\<lambda>path. unlogged (load_from_file ui path)),
      USAGE_REPORT_FILE = USAGE_REPORT_FILE ui\<rparr>"

section \<open>The generated conjugator (generated/conjugator/verb_conjugator.py)\<close>

text \<open>
  The part of the library mlconjug3 that the class uses. \<open>get_verb c verb\<close> is
  \<open>self.conjugator.get_verb(verb)\<close>: it raises, or returns a verb object, \<open>None\<close> standing
  for a result that is false in a condition. \<open>conjugate_verb c verb_obj tense\<close> is
  \<open>verb_obj.conjugate(tense)\<close>: it raises, or returns a dictionary from persons to forms,
  \<open>None\<close> standing for a result that is false in a condition.
\<close>

record 'v Conjugator =
  get_verb :: "string \<Rightarrow> exn + 'v option"
  conjugate_verb :: "'v \<Rightarrow> string \<Rightarrow> exn + (string \<times> string) list option"

text \<open>
  The fields of a \<open>VerbConjugator\<close>; \<open>conjugator\<close> is \<open>None\<close> when \<open>__init__\<close> caught an
  exception of \<open>Conjugator(self.language)\<close>.
\<close>

record 'v VerbConjugator =
  language :: string
  conjugator :: "'v Conjugator option"

definition supported_tenses :: "(string \<times> string) list" where
  "supported_tenses =
     [(''present'', ''indicatif pr'' @ [CHR 0xC3, CHR 0xA9] @ ''sent''),
      (''imperfect'', ''indicatif imparfait''),
      (''future'', ''indicatif futur simple'')]"

definition supported_persons :: "(string \<times> string) list" where
  "supported_persons =
     [(''first_singular'', ''je''),
      (''second_singular'', ''tu''),
      (''third_singular'', ''il''),
      (''first_plural'', ''nous''),
      (''second_plural'', ''vous''),
      (''third_plural'', ''ils'')]"

text \<open>\<open>[x for x in xs if x is not None]\<close>\<close>

fun not_none :: "'a option list \<Rightarrow> 'a list" where
  "not_none [] = []"
| "not_none (None # xs) = not_none xs"
| "not_none (Some x # xs) = x # not_none xs"

text \<open>
  \<open>[table.get(t.lower()) for t in names if t.lower() in table]\<close>, then without the
  \<open>None\<close>s. \<open>lower\<close> is Python's \<open>str.lower\<close>.
\<close>

definition select_supported ::
  "(string \<Rightarrow> string) \<Rightarrow> (string \<times> string) list \<Rightarrow> string list \<Rightarrow> string list" where
  "select_supported lower table names =
     not_none (map (\<lambda>t. map_of table (lower t))
                   (filter (\<lambda>t. lower t \<in> set (map fst table)) names))"

text \<open>
  The standard output: the texts printed so far, one entry for each \<open>print\<close> call.
  \<open>print\<close> is a Python built-in; \<open>print_fault\<close> says for which text, after which output,
  the call raises (an encoding error of the stream, a closed stream) and with what.
\<close>

type_synonym stdout = "string list"

definition py_print :: "(stdout \<Rightarrow> string \<Rightarrow> exn option) \<Rightarrow> string \<Rightarrow> (unit, stdout) call" where
  "py_print print_fault text =
     (\<lambda>out. case print_fault out text of
               Some e \<Rightarrow> (Inl e, out)
             | None \<Rightarrow> (Inr (), out @ [text]))"

text \<open>
  The body of the loop \<open>for person in selected_persons\<close>: the inner \<open>try\<close> with its
  handler. An exception of the library, or of the \<open>print\<close> of the warning, enters the
  handler, which prints and then stores \<open>"Error"\<close> for the person; an exception of the
  handler's own \<open>print\<close> leaves the loop. A false verb object prints the warning and skips
  the person (\<open>continue\<close>); a missing person stores \<open>"Not found"\<close>. The dictionary
  \<open>tense_conjugations\<close> is an association list in insertion order; the result is the
  dictionary after the iteration.
\<close>

definition conjugate_person ::
  "(stdout \<Rightarrow> string \<Rightarrow> exn option) \<Rightarrow> 'v Conjugator \<Rightarrow> string \<Rightarrow> string \<Rightarrow> string \<Rightarrow>
   (string \<times> string) list \<Rightarrow> ((string \<times> string) list, stdout) call" where
  "conjugate_person print_fault c verb tense person tense_conjugations =
     py_try
       (case get_verb c verb of
          Inl e \<Rightarrow> py_raise e
        | Inr None \<Rightarrow>
            py_bind (py_print print_fault
                       (''Warning: Verb '' @ [CHR 0x27] @ verb @ [CHR 0x27]
                          @ '' not found or could not be processed.'')) (\<lambda>_.
            py_return tense_conjugations)
        | Inr (Some verb_obj) \<Rightarrow>
            (case conjugate_verb c verb_obj tense of
               Inl e \<Rightarrow> py_raise e
             | Inr None \<Rightarrow> py_return (AList.update person ''Not found'' tense_conjugations)
             | Inr (Some all_persons_for_tense) \<Rightarrow>
                 (case map_of all_persons_for_tense person of
                    Some form \<Rightarrow> py_return (AList.update person form tense_conjugations)
                  | None \<Rightarrow> py_return (AList.update person ''Not found'' tense_conjugations))))
       (\<lambda>e. py_bind (py_print print_fault
                        (''Error conjugating '' @ [CHR 0x27] @ verb @ [CHR 0x27] @ '' in tense ''
                           @ [CHR 0x27] @ tense @ [CHR 0x27] @ '' for person '' @ [CHR 0x27]
                           @ person @ [CHR 0x27] @ '': '' @ exn_str e)) (\<lambda>_.
             py_return (AList.update person ''Error'' tense_conjugations)))"

text \<open>The loop \<open>for person in selected_persons\<close>.\<close>

fun conjugate_persons ::
  "(stdout \<Rightarrow> string \<Rightarrow> exn option) \<Rightarrow> 'v Conjugator \<Rightarrow> string \<Rightarrow> string \<Rightarrow> string list \<Rightarrow>
   (string \<times> string) list \<Rightarrow> ((string \<times> string) list, stdout) call" where
  "conjugate_persons print_fault c verb tense [] tense_conjugations =
     py_return tense_conjugations"
| "conjugate_persons print_fault c verb tense (person # rest) tense_conjugations =
     py_bind (conjugate_person print_fault c verb tense person tense_conjugations)
       (\<lambda>tense_conjugations. conjugate_persons print_fault c verb tense rest tense_conjugations)"

text \<open>
  The outer loop \<open>for tense in selected_tenses\<close>: a tense is stored only when its
  dictionary is not empty.
\<close>

fun conjugate_tenses ::
  "(stdout \<Rightarrow> string \<Rightarrow> exn option) \<Rightarrow> 'v Conjugator \<Rightarrow> string \<Rightarrow> string list \<Rightarrow> string list \<Rightarrow>
   (string \<times> (string \<times> string) list) list \<Rightarrow>
   ((string \<times> (string \<times> string) list) list, stdout) call" where
  "conjugate_tenses print_fault c verb [] selected_persons conjugations = py_return conjugations"
| "conjugate_tenses print_fault c verb (tense # rest) selected_persons conjugations =
     py_bind (conjugate_persons print_fault c verb tense selected_persons [])
       (\<lambda>tense_conjugations.
          conjugate_tenses print_fault c verb rest selected_persons
            (if tense_conjugations \<noteq> [] then AList.update tense tense_conjugations conjugations
             else conjugations))"

text \<open>
  \<open>VerbConjugator.conjugate(verb, tenses=None, persons=None)\<close>. The \<open>ValueError\<close> is raised
  before the outer \<open>try\<close>. The outer handler prints and returns the empty dictionary; an
  exception of its \<open>print\<close> leaves the method.
\<close>

definition conjugate ::
  "(string \<Rightarrow> string) \<Rightarrow> (stdout \<Rightarrow> string \<Rightarrow> exn option) \<Rightarrow> 'v VerbConjugator \<Rightarrow> string \<Rightarrow>
   string list option \<Rightarrow> string list option \<Rightarrow>
   ((string \<times> (string \<times> string) list) list, stdout) call" where
  "conjugate lower print_fault self verb tenses_arg persons_arg =
     (case conjugator self of
        None \<Rightarrow> py_raise (Exn ''ValueError''
                  (''Conjugator not initialized for language '' @ [CHR 0x27] @ language self
                     @ [CHR 0x27] @ ''. Please check initialization.''))
      | Some c \<Rightarrow>
          (let selected_tenses =
                 (case tenses_arg of
                    None \<Rightarrow> map snd supported_tenses
                  | Some ts \<Rightarrow> select_supported lower supported_tenses ts);
               selected_persons =
                 (case persons_arg of
                    None \<Rightarrow> map snd supported_persons
                  | Some ps \<Rightarrow> select_supported lower supported_persons ps)
           in py_try
                (conjugate_tenses print_fault c verb selected_tenses selected_persons [])
                (\<lambda>e. py_bind (py_print print_fault
                                 (''An unexpected error occurred during conjugation of ''
                                    @ [CHR 0x27] @ verb @ [CHR 0x27] @ '': '' @ exn_str e)) (\<lambda>_.
                      py_return []))))"

text \<open>\<open>str.lower\<close> on ASCII text, for running the conjugator on concrete inputs.\<close>

definition ascii_lower :: "string \<Rightarrow> string" where
  "ascii_lower s =
     map (\<lambda>c. case map_of (zip ''ABCDEFGHIJKLMNOPQRSTUVWXYZ'' ''abcdefghijklmnopqrstuvwxyz'') c of
                Some l \<Rightarrow> l
              | None \<Rightarrow> c) s"

section \<open>A small concrete environment\<close>

text \<open>
  A model client that counts its calls and answers the first three with \<open>pass\<close> and the
  later ones with \<open>x = 1\<close>, helpers that never fail, and an empty disk: used to run the
  definitions on concrete inputs.
\<close>

definition example_tracker :: "nat TrackingAgent" where
  "example_tracker =
     \<lparr>generate_content = (\<lambda>prompt n. (Inr (if n < 3 then ''pass'' else ''x = 1''), Suc n))\<rparr>"

definition example_helpers :: helpers where
  "example_helpers = \<lparr>clean_code_block = (\<lambda>s. s), write_fault = (\<lambda>fs c p. None),
     CONJUGATOR_DIR = ''generated/conjugator'', TESTS_DIR = ''generated/tests''\<rparr>"

definition example_agent :: "nat agent" where
  "example_agent = \<lparr>tracking_agent = example_tracker, mcp_client = None\<rparr>"

definition example_spec :: RequirementSpec where
  "example_spec = \<lparr>languages = [''fr''], tenses = [''present''], persons = [''je''],
     handle_irregular = True\<rparr>"

definition example_world :: "nat world" where
  "example_world = \<lparr>files = Map.empty, ext = 0\<rparr>"

definition example_artifacts :: "GeneratedCode list" where
  "example_artifacts =
     [\<lparr>filename = ''verb_conjugator.py'', code = ''pass'',
       description = ''Main verb conjugator module'', dependencies = [''mlconjug3'']\<rparr>,
      \<lparr>filename = ''gradio_ui.py'', code = ''pass'',
       description = ''Gradio user interface'', dependencies = [''gradio'', ''verb_conjugator'']\<rparr>]"

definition example_files :: fs where
  "example_files =
     [''generated/conjugator/verb_conjugator.py'' \<mapsto> ''pass'',
      ''generated/conjugator/gradio_ui.py'' \<mapsto> ''pass'']"

text \<open>A model client whose second call fails.\<close>

definition quota_tracker :: "nat TrackingAgent" where
  "quota_tracker = \<lparr>generate_content = (\<lambda>prompt n.
      if n = 0 then (Inr ''pass'', Suc n) else (Inl (Exn ''RuntimeError'' ''quota exceeded''), n))\<rparr>"

definition quota_agent :: "nat agent" where
  "quota_agent = \<lparr>tracking_agent = quota_tracker, mcp_client = None\<rparr>"

text \<open>The worlds and artifacts of two runs of the example environment, one after the other.\<close>

definition first_world_code :: "nat world" where
  "first_world_code = \<lparr>files = example_files, ext = 2\<rparr>"

definition first_world_tests :: "nat world" where
  "first_world_tests =
     \<lparr>files = example_files(''generated/tests/test_conjugator.py'' \<mapsto> ''import pytest\<newline>pass''),
      ext = 3\<rparr>"

definition second_artifacts :: "GeneratedCode list" where
  "second_artifacts =
     [\<lparr>filename = ''verb_conjugator.py'', code = ''x = 1'',
       description = ''Main verb conjugator module'', dependencies = [''mlconjug3'']\<rparr>,
      \<lparr>filename = ''gradio_ui.py'', code = ''x = 1'',
       description = ''Gradio user interface'', dependencies = [''gradio'', ''verb_conjugator'']\<rparr>]"

definition second_world_code :: "nat world" where
  "second_world_code =
     \<lparr>files = (files first_world_tests)
        (''generated/conjugator/verb_conjugator.py'' \<mapsto> ''x = 1'',
         ''generated/conjugator/gradio_ui.py'' \<mapsto> ''x = 1''),
      ext = 5\<rparr>"

definition second_world_tests :: "nat world" where
  "second_world_tests =
     \<lparr>files = (files second_world_code)
        (''generated/tests/test_conjugator.py'' \<mapsto> ''import pytest\<newline>x = 1''),
      ext = 6\<rparr>"

text \<open>
  An orchestrator over the example environment: a parser that always returns the example
  specification, a design step that returns nothing of interest, a usage report \<open>{}\<close>, and
  \<open>load_from_file\<close> reading the disk of the world. A second one has the failing model client.
\<close>

definition example_load :: "string \<Rightarrow> (string, nat world) call" where
  "example_load path =
     (\<lambda>w. case files w path of
             None \<Rightarrow> (Inl (Exn ''FileNotFoundError'' path), w)
           | Some content \<Rightarrow> (Inr content, w))"

definition example_ui :: "(nat world, unit) VerbConjugatorFactoryUI" where
  "example_ui =
     init_ui example_helpers example_tracker (\<lambda>requirements. py_return example_spec)
       (\<lambda>spec. py_return ()) (save_to_file example_helpers ''{}'' ''model_usage_report.json'')
       example_load ''model_usage_report.json''"

definition quota_ui :: "(nat world, unit) VerbConjugatorFactoryUI" where
  "quota_ui =
     init_ui example_helpers quota_tracker (\<lambda>requirements. py_return example_spec)
       (\<lambda>spec. py_return ()) (save_to_file example_helpers ''{}'' ''model_usage_report.json'')
       example_load ''model_usage_report.json''"

definition example_outputs :: outputs where
  "example_outputs =
     ([CHR 0xF0, CHR 0x9F, CHR 0x93, CHR 0x9D] @ '' Parsing requirements...\<newline>''
        @ [CHR 0xF0, CHR 0x9F, CHR 0x8E, CHR 0xA8] @ '' Creating design...\<newline>''
        @ [CHR 0xF0, CHR 0x9F, CHR 0x92, CHR 0xBB] @ '' Generating code...\<newline>''
        @ [CHR 0xF0, CHR 0x9F, CHR 0xA7, CHR 0xAA] @ '' Generating tests...\<newline>''
        @ [CHR 0xF0, CHR 0x9F, CHR 0x93, CHR 0x8A] @ '' Saving usage report...\<newline>\<newline>''
        @ [CHR 0xE2, CHR 0x9C, CHR 0x85] @ '' Generation complete!'',
      ''# verb_conjugator.py\<newline>pass\<newline>\<newline># gradio_ui.py\<newline>pass'',
      ''import pytest\<newline>pass'',
      ''{}'',
      create_instructions example_spec)"

definition example_world_end :: "nat world" where
  "example_world_end =
     \<lparr>files = (files first_world_tests)(''model_usage_report.json'' \<mapsto> ''{}''), ext = 3\<rparr>"

text \<open>
  A stand-in for the library that knows the verb \<open>manger\<close>, fails on the future tense and
  has forms for \<open>je\<close> and \<open>nous\<close> only; a conjugator built on it, and one whose
  initialisation failed.
\<close>

definition example_mlconjug :: "string Conjugator" where
  "example_mlconjug =
     \<lparr>get_verb = (\<lambda>verb. if verb = ''manger'' then Inr (Some verb) else Inr None),
      conjugate_verb = (\<lambda>verb_obj tense.
         if tense = ''indicatif futur simple'' then Inl (Exn ''KeyError'' tense)
         else Inr (Some [(''je'', ''mange''), (''nous'', ''mangeons'')]))\<rparr>"

text \<open>A library whose every conjugation raises.\<close>

definition raising_mlconjug :: "string Conjugator" where
  "raising_mlconjug =
     \<lparr>get_verb = (\<lambda>verb. Inr (Some verb)),
      conjugate_verb = (\<lambda>verb_obj tense. Inl (Exn ''AttributeError'' ''no conjugate''))\<rparr>"

text \<open>
  A standard output that takes every text, and one that encodes to ASCII and raises on a
  text with a byte above 127.
\<close>

definition plain_stdout :: "stdout \<Rightarrow> string \<Rightarrow> exn option" where
  "plain_stdout out text = None"

definition ascii_stdout :: "stdout \<Rightarrow> string \<Rightarrow> exn option" where
  "ascii_stdout out text =
     (if list_ex digit7 text
      then Some (Exn ''UnicodeEncodeError'' ''ordinal not in range(128)'') else None)"

definition french :: "string VerbConjugator" where
  "french = \<lparr>language = ''fr'', conjugator = Some example_mlconjug\<rparr>"

definition uninitialised :: "string VerbConjugator" where
  "uninitialised = \<lparr>language = ''es'', conjugator = None\<rparr>"


section \<open>Basic facts about calls\<close>

lemma py_bind_returns_iff:
  "py_bind m f s = (Inr b, t) \<longleftrightarrow> (\<exists>a s'. m s = (Inr a, s') \<and> f a s' = (Inr b, t))"
  by (auto simp: py_bind_def split: prod.splits sum.splits)

lemma py_bind_raises_iff:
  "py_bind m f s = (Inl e, t) \<longleftrightarrow>
     m s = (Inl e, t) \<or> (\<exists>a s'. m s = (Inr a, s') \<and> f a s' = (Inl e, t))"
  by (auto simp: py_bind_def split: prod.splits sum.splits)

lemma py_return_eq: "py_return a s = (r, t) \<longleftrightarrow> r = Inr a \<and> t = s"
  by (auto simp: py_return_def)

lemma on_ext_eq:
  "on_ext m w = (r, w') \<longleftrightarrow> (\<exists>x'. m (ext w) = (r, x') \<and> w' = w\<lparr>ext := x'\<rparr>)"
  by (auto simp: on_ext_def split: prod.splits)

lemma notify_files: "notify ag msg w = (r, w') \<Longrightarrow> files w' = files w"
  by (auto simp: notify_def py_return_def on_ext_def split: option.splits prod.splits)

lemma generate_conjugator_returns:
  "generate_conjugator h ag spec design w = (Inr gc, w') \<Longrightarrow> filename gc = ''verb_conjugator.py''"
  by (auto simp: generate_conjugator_def Let_def py_bind_returns_iff py_return_eq)

lemma generate_ui_returns:
  "generate_ui h ag spec w = (Inr gc, w') \<Longrightarrow> filename gc = ''gradio_ui.py''"
  by (auto simp: generate_ui_def Let_def py_bind_returns_iff py_return_eq)

section \<open>Substring search\<close>

lemma starts_with_append: "starts_with sub (sub @ rest)"
  by (induction sub) simp_all

lemma starts_with_contains: "starts_with sub s \<Longrightarrow> str_contains sub s"
  by (cases s) (auto elim: starts_with.elims)

lemma str_contains_append: "str_contains sub (sub @ rest)"
  by (simp add: starts_with_append starts_with_contains)

lemma starts_with_iff: "starts_with sub s \<longleftrightarrow> (\<exists>post. s = sub @ post)"
  by (induction sub s rule: starts_with.induct) auto

lemma str_contains_iff: "str_contains sub s \<longleftrightarrow> (\<exists>pre post. s = pre @ sub @ post)"
proof (induction s)
  case Nil
  then show ?case by auto
next
  case (Cons d ds)
  show ?case
  proof
    assume "str_contains sub (d # ds)"
    then consider "starts_with sub (d # ds)" | "str_contains sub ds" by auto
    then show "\<exists>pre post. d # ds = pre @ sub @ post"
    proof cases
      case 1
      then obtain post where "d # ds = sub @ post" by (auto simp: starts_with_iff)
      then have "d # ds = [] @ sub @ post" by simp
      then show ?thesis by blast
    next
      case 2
      with Cons.IH obtain pre post where "ds = pre @ sub @ post" by auto
      then have "d # ds = (d # pre) @ sub @ post" by simp
      then show ?thesis by blast
    qed
  next
    assume "\<exists>pre post. d # ds = pre @ sub @ post"
    then obtain pre post where eq: "d # ds = pre @ sub @ post" by auto
    show "str_contains sub (d # ds)"
    proof (cases pre)
      case Nil
      with eq have "starts_with sub (d # ds)" by (auto simp: starts_with_iff)
      then show ?thesis by simp
    next
      case (Cons p pre')
      with eq have "ds = pre' @ sub @ post" by simp
      with Cons.IH have "str_contains sub ds" by blast
      then show ?thesis by simp
    qed
  qed
qed

lemma conjugator_lookup_None:
  "conjugator_lookup gcs = None \<longleftrightarrow> (\<forall>gc \<in> set gcs. \<not> str_contains ''conjugator'' (filename gc))"
  by (auto simp: conjugator_lookup_def find_None_iff)

section \<open>Running the concrete environment\<close>

lemmas example_defs = example_tracker_def example_helpers_def example_agent_def
  example_world_def example_artifacts_def example_files_def

lemmas run_defs = py_bind_def py_return_def on_ext_def notify_def save_to_file_def Let_def

lemma example_generate_code:
  "generate_code example_helpers example_agent example_spec () example_world =
     (Inr example_artifacts,
      \<lparr>files = example_files, ext = 2\<rparr>)"
  by (simp add: generate_code_def generate_conjugator_def generate_ui_def example_defs run_defs)

section \<open>The steps of the agents\<close>

lemma on_ext_files: "on_ext m w = (r, w') \<Longrightarrow> files w' = files w"
  by (auto simp: on_ext_eq)

lemma generate_conjugator_raises_iff:
  "generate_conjugator h ag spec design w = (Inl e, w') \<longleftrightarrow>
     on_ext (generate_content (tracking_agent ag) (conjugator_prompt spec)) w = (Inl e, w')"
  by (simp add: generate_conjugator_def Let_def py_bind_raises_iff py_return_eq)

lemma generate_conjugator_returns_iff:
  "generate_conjugator h ag spec design w = (Inr g, w') \<longleftrightarrow>
     (\<exists>c. on_ext (generate_content (tracking_agent ag) (conjugator_prompt spec)) w = (Inr c, w')
        \<and> g = \<lparr>filename = ''verb_conjugator.py'', code = clean_code_block h c,
                 description = ''Main verb conjugator module'',
                 dependencies = [''mlconjug3'']\<rparr>)"
  by (auto simp: generate_conjugator_def Let_def py_bind_returns_iff py_return_eq)

lemma generate_ui_raises_iff:
  "generate_ui h ag spec w = (Inl e, w') \<longleftrightarrow>
     on_ext (generate_content (tracking_agent ag) (ui_prompt spec)) w = (Inl e, w')"
  by (simp add: generate_ui_def Let_def py_bind_raises_iff py_return_eq)

lemma generate_ui_returns_iff:
  "generate_ui h ag spec w = (Inr g, w') \<longleftrightarrow>
     (\<exists>c. on_ext (generate_content (tracking_agent ag) (ui_prompt spec)) w = (Inr c, w')
        \<and> g = \<lparr>filename = ''gradio_ui.py'', code = clean_code_block h c,
                 description = ''Gradio user interface'',
                 dependencies = [''gradio'', ''verb_conjugator'']\<rparr>)"
  by (auto simp: generate_ui_def Let_def py_bind_returns_iff py_return_eq)

lemma conjugator_path_not_tests_path:
  "d1 @ ''/verb_conjugator.py'' \<noteq> d2 @ ''/test_conjugator.py''"
  by simp

lemma ui_path_not_tests_path:
  "d1 @ ''/gradio_ui.py'' \<noteq> d2 @ ''/test_conjugator.py''"
proof
  assume "d1 @ ''/gradio_ui.py'' = d2 @ ''/test_conjugator.py''"
  then have "(d1 @ ''/gradio_'') @ ''ui.py'' = (d2 @ ''/test_conjugat'') @ ''or.py''"
    by simp
  then have "''ui.py'' = ''or.py''"
    by (subst (asm) append_eq_append_conv) simp_all
  then show False by simp
qed

lemma save_to_file_returns:
  "save_to_file h content filepath w = (Inr u, w') \<Longrightarrow>
     w' = w\<lparr>files := (files w)(filepath \<mapsto> content)\<rparr>"
  by (auto simp: save_to_file_def split: option.splits)

lemma generate_code_persists:
  assumes "generate_code h ag spec design w = (Inr gs, w')"
  shows "files w' = (files w)(CONJUGATOR_DIR h @ ''/verb_conjugator.py'' \<mapsto> code (gs ! 0),
                            CONJUGATOR_DIR h @ ''/gradio_ui.py'' \<mapsto> code (gs ! 1))"
  using assms
  apply (simp add: generate_code_def Let_def py_bind_returns_iff py_return_eq
      generate_conjugator_returns_iff generate_ui_returns_iff)
  apply (elim exE conjE)
  apply (auto dest!: save_to_file_returns notify_files on_ext_files)
  done

lemma generate_tests_persists:
  assumes "generate_tests h ag spec gcs w = (Inr t, w')"
  shows "files w' = (files w)(TESTS_DIR h @ ''/test_conjugator.py'' \<mapsto> t)"
  using assms
  apply (simp add: generate_tests_def Let_def py_bind_returns_iff py_return_eq)
  apply (elim exE conjE)
  apply (auto dest!: save_to_file_returns notify_files on_ext_files)
  done

section \<open>Two runs of the concrete environment\<close>

lemma first_run_code:
  "generate_code example_helpers example_agent example_spec () example_world
     = (Inr example_artifacts, first_world_code)"
  by (simp add: example_generate_code first_world_code_def)

lemma first_run_tests:
  "generate_tests example_helpers example_agent example_spec example_artifacts first_world_code
     = (Inr ''import pytest\<newline>pass'', first_world_tests)"
  by (simp add: generate_tests_def example_tracker_def example_helpers_def example_agent_def
        first_world_code_def first_world_tests_def run_defs)

lemma second_run_code:
  "generate_code example_helpers example_agent example_spec () first_world_tests
     = (Inr second_artifacts, second_world_code)"
  by (simp add: generate_code_def generate_conjugator_def generate_ui_def example_tracker_def
        example_helpers_def example_agent_def first_world_tests_def second_artifacts_def
        second_world_code_def run_defs)

lemma second_run_tests:
  "generate_tests example_helpers example_agent example_spec second_artifacts second_world_code
     = (Inr ''import pytest\<newline>x = 1'', second_world_tests)"
  by (simp add: generate_tests_def example_tracker_def example_helpers_def example_agent_def
        second_world_code_def second_world_tests_def run_defs)

section \<open>The orchestrator's \<open>try\<close> block\<close>

text \<open>The block raises exactly when one of the calls in it raises, the earlier ones having returned.\<close>

lemma generate_application_try_raises_iff:
  "generate_application_try ui requirements w = (Inl e, w') \<longleftrightarrow>
     parser_agent ui requirements w = (Inl e, w')
   \<or> (\<exists>spec w1. parser_agent ui requirements w = (Inr spec, w1) \<and>
        (design_agent ui spec w1 = (Inl e, w')
       \<or> (\<exists>design w2. design_agent ui spec w1 = (Inr design, w2) \<and>
        (code_gen_agent ui spec design w2 = (Inl e, w')
       \<or> (\<exists>generated_code w3. code_gen_agent ui spec design w2 = (Inr generated_code, w3) \<and>
        (test_agent ui spec generated_code w3 = (Inl e, w')
       \<or> (\<exists>test_code w4. test_agent ui spec generated_code w3 = (Inr test_code, w4) \<and>
        (save_usage_report ui w4 = (Inl e, w')
       \<or> (\<exists>w5. save_usage_report ui w4 = (Inr (), w5) \<and>
        (load_from_file ui ''generated/conjugator/verb_conjugator.py'' w5 = (Inl e, w')
       \<or> (\<exists>conjugator_code w6.
             load_from_file ui ''generated/conjugator/verb_conjugator.py'' w5
               = (Inr conjugator_code, w6) \<and>
        (load_from_file ui ''generated/conjugator/gradio_ui.py'' w6 = (Inl e, w')
       \<or> (\<exists>ui_code w7. load_from_file ui ''generated/conjugator/gradio_ui.py'' w6
               = (Inr ui_code, w7) \<and>
            load_from_file ui (USAGE_REPORT_FILE ui) w7 = (Inl e, w'))))))))))))))"
  unfolding generate_application_try_def Let_def
  by (simp add: py_bind_raises_iff py_bind_returns_iff py_return_eq del: append.simps)

lemmas ui_defs = generate_application_try_def init_ui_def generate_code_def
  generate_conjugator_def generate_ui_def generate_tests_def example_load_def

lemma example_run:
  "generate_application_try example_ui ''Make a French conjugator'' example_world
     = (Inr example_outputs, example_world_end)"
  by (simp add: ui_defs example_ui_def example_defs example_outputs_def example_world_end_def
        first_world_tests_def run_defs)

lemma quota_run:
  "generate_application_try quota_ui ''Make a French conjugator'' example_world
     = (Inl (Exn ''RuntimeError'' ''quota exceeded''), \<lparr>files = Map.empty, ext = 1\<rparr>)"
  by (simp add: ui_defs quota_ui_def quota_tracker_def example_helpers_def example_world_def
        run_defs)

section \<open>The conjugator's selection of tenses and persons\<close>

lemma select_supported_none:
  "\<forall>t \<in> set names. lower t \<notin> set (map fst table) \<Longrightarrow> select_supported lower table names = []"
  by (simp add: select_supported_def)

lemma select_supported_filter:
  "select_supported lower table (filter (\<lambda>t. lower t \<in> set (map fst table)) names)
     = select_supported lower table names"
  by (simp add: select_supported_def)

lemma conjugate_person_returns:
  assumes "\<forall>out text. print_fault out text = None"
  shows "\<exists>tc out'. conjugate_person print_fault c verb tense person tense_conjugations out
           = (Inr tc, out')"
  using assms
  by (simp add: conjugate_person_def py_try_def py_bind_def py_return_def py_raise_def
        py_print_def split: sum.splits option.splits)

lemma conjugate_persons_returns:
  assumes "\<forall>out text. print_fault out text = None"
  shows "\<exists>tc out'. conjugate_persons print_fault c verb tense selected_persons tense_conjugations out
           = (Inr tc, out')"
proof (induction selected_persons arbitrary: tense_conjugations out)
  case Nil
  show ?case by (simp add: py_return_def)
next
  case (Cons person rest)
  from conjugate_person_returns [OF assms] obtain tc out1 where
    "conjugate_person print_fault c verb tense person tense_conjugations out = (Inr tc, out1)"
    by blast
  with Cons.IH [of tc out1] show ?case by (simp add: py_bind_def)
qed

lemma conjugate_tenses_returns:
  assumes "\<forall>out text. print_fault out text = None"
  shows "\<exists>d out'. conjugate_tenses print_fault c verb selected_tenses selected_persons conjugations out
           = (Inr d, out')"
proof (induction selected_tenses arbitrary: conjugations out)
  case Nil
  show ?case by (simp add: py_return_def)
next
  case (Cons tense rest)
  from conjugate_persons_returns [OF assms] obtain tc out1 where
    "conjugate_persons print_fault c verb tense selected_persons [] out = (Inr tc, out1)"
    by blast
  with Cons.IH [of _ out1] show ?case by (simp add: py_bind_def)
qed

lemma conjugate_tenses_no_persons:
  "conjugate_tenses print_fault c verb selected_tenses [] conjugations out = (Inr conjugations, out)"
  by (induction selected_tenses) (simp_all add: py_return_def py_bind_def)

lemma conjugate_filtered:
  "conjugate lower print_fault self verb
     (map_option (filter (\<lambda>t. lower t \<in> set (map fst supported_tenses))) tenses_arg)
     (map_option (filter (\<lambda>p. lower p \<in> set (map fst supported_persons))) persons_arg)
   = conjugate lower print_fault self verb tenses_arg persons_arg"
  by (cases tenses_arg; cases persons_arg)
     (simp_all add: conjugate_def Let_def select_supported_filter del: set_map split: option.splits)

lemma py_try_print_raises:
  assumes "py_try body (\<lambda>e. py_bind (py_print print_fault (msg e)) (\<lambda>_. py_return d)) s
             = (Inl e, out')"
  shows "\<exists>e'. print_fault out' (msg e') = Some e"
proof (cases "body s")
  case (Pair r s1)
  show ?thesis
  proof (cases r)
    case (Inl e')
    with Pair assms have "py_bind (py_print print_fault (msg e')) (\<lambda>_. py_return d) s1
        = (Inl e, out')"
      by (simp add: py_try_def)
    then have "print_fault out' (msg e') = Some e"
      by (cases "print_fault s1 (msg e')")
         (simp_all add: py_bind_def py_print_def py_return_def)
    then show ?thesis by blast
  next
    case (Inr a)
    with Pair assms show ?thesis by (simp add: py_try_def)
  qed
qed

lemmas conjugator_defs = conjugate_def conjugate_person_def select_supported_def
  supported_tenses_def supported_persons_def ascii_lower_def Let_def
  py_try_def py_bind_def py_return_def py_raise_def py_print_def

lemma example_conjugate_mixed:
  "conjugate ascii_lower plain_stdout french ''manger''
     (Some [''Present'', ''past_perfect'', ''future'']) (Some [''first_singular'', ''bogus'']) []
   = (Inr [(''indicatif pr'' @ [CHR 0xC3, CHR 0xA9] @ ''sent'', [(''je'', ''mange'')]),
           (''indicatif futur simple'', [(''je'', ''Error'')])],
      [''Error conjugating '' @ [CHR 0x27] @ ''manger'' @ [CHR 0x27] @ '' in tense ''
         @ [CHR 0x27] @ ''indicatif futur simple'' @ [CHR 0x27] @ '' for person ''
         @ [CHR 0x27] @ ''je'' @ [CHR 0x27] @ '': indicatif futur simple''])"
  by (simp add: conjugator_defs french_def example_mlconjug_def plain_stdout_def)

lemma example_conjugate_outer_handler:
  "conjugate ascii_lower ascii_stdout \<lparr>language = ''fr'', conjugator = Some raising_mlconjug\<rparr>
     ''manger'' None None []
   = (Inr [],
      [''An unexpected error occurred during conjugation of '' @ [CHR 0x27] @ ''manger''
         @ [CHR 0x27] @ '': ordinal not in range(128)''])"
  by (simp add: conjugator_defs raising_mlconjug_def ascii_stdout_def)

section \<open>The code generator returns two artifacts\<close>

text \<open>
  Claim C2. Whatever the requirement specification and the design specification hold, a list
  that \<open>CodeGenAgent.generate_code\<close> returns has exactly two \<open>GeneratedCode\<close> records: the
  first with filename \<open>verb_conjugator.py\<close>, the second with filename \<open>gradio_ui.py\<close>.
\<close>

theorem generate_code_two_artifacts:
  assumes "generate_code h ag spec design w = (Inr generated_files, w')"
  shows "length generated_files = 2
     \<and> map filename generated_files = [''verb_conjugator.py'', ''gradio_ui.py'']"
  using assms
  by (auto simp: generate_code_def Let_def py_bind_returns_iff py_return_eq
           dest: generate_conjugator_returns generate_ui_returns)

theorem generate_code_two_artifacts_witness:
  "generate_code example_helpers example_agent example_spec () example_world =
     (Inr example_artifacts, \<lparr>files = example_files, ext = 2\<rparr>)
   \<and> length example_artifacts = 2
   \<and> map filename example_artifacts = [''verb_conjugator.py'', ''gradio_ui.py'']"
  using generate_code_two_artifacts [OF example_generate_code] example_generate_code by simp

section \<open>The test generator\<close>

text \<open>
  Claim C3. When no filename in the list of generated artifacts contains \<open>conjugator\<close>, the
  lookup of \<open>TestAgent.generate_tests\<close> raises nothing: it yields \<open>None\<close>, and the rest of
  the operation proceeds, so that the call returns the test code whenever the notifications,
  the model call and the write of the test file succeed.
\<close>

theorem generate_tests_lookup_miss:
  assumes miss: "\<forall>gc \<in> set generated_code. \<not> str_contains ''conjugator'' (filename gc)"
    and started: "notify ag [(''event'', Str ''test_generation_started'')] w = (Inr (), w1)"
    and model: "generate_content (tracking_agent ag) (tests_prompt spec) (ext w1) = (Inr out, x2)"
    and content: "test_code = (if str_contains ''import pytest'' (clean_code_block h out)
                          then clean_code_block h out
                          else ''import pytest\<newline>'' @ clean_code_block h out)"
    and saved: "write_fault h (files w1) test_code (TESTS_DIR h @ ''/test_conjugator.py'') = None"
    and completed: "notify ag [(''event'', Str ''test_generation_completed''),
         (''test_file'', Str (TESTS_DIR h @ ''/test_conjugator.py''))]
         (w1\<lparr>ext := x2, files := (files w1)(TESTS_DIR h @ ''/test_conjugator.py'' \<mapsto> test_code)\<rparr>)
         = (Inr (), w')"
  shows "conjugator_lookup generated_code = None
     \<and> generate_tests h ag spec generated_code w = (Inr test_code, w')"
proof
  show "conjugator_lookup generated_code = None"
    using miss by (simp add: conjugator_lookup_None)
  have m: "on_ext (generate_content (tracking_agent ag) (tests_prompt spec)) w1
             = (Inr out, w1\<lparr>ext := x2\<rparr>)"
    using model by (simp add: on_ext_def)
  have s: "save_to_file h test_code (TESTS_DIR h @ ''/test_conjugator.py'') (w1\<lparr>ext := x2\<rparr>)
             = (Inr (), w1\<lparr>ext := x2,
                  files := (files w1)(TESTS_DIR h @ ''/test_conjugator.py'' \<mapsto> test_code)\<rparr>)"
    using saved by (simp add: save_to_file_def)
  show "generate_tests h ag spec generated_code w = (Inr test_code, w')"
  proof (cases "str_contains ''import pytest'' (clean_code_block h out)")
    case True
    with started m s completed content show ?thesis
      by (simp add: generate_tests_def Let_def py_bind_def py_return_def)
  next
    case False
    with started m s completed content show ?thesis
      by (simp add: generate_tests_def Let_def py_bind_def py_return_def)
  qed
qed

theorem generate_tests_lookup_miss_witness:
  "\<not> str_contains ''conjugator'' (filename (example_artifacts ! 1))
   \<and> conjugator_lookup [example_artifacts ! 1] = None
   \<and> generate_tests example_helpers example_agent example_spec [example_artifacts ! 1]
        example_world
      = (Inr ''import pytest\<newline>pass'',
         \<lparr>files = [''generated/tests/test_conjugator.py'' \<mapsto> ''import pytest\<newline>pass''],
          ext = 1\<rparr>)"
proof -
  let ?w' = "\<lparr>files = [''generated/tests/test_conjugator.py'' \<mapsto> ''import pytest\<newline>pass''],
              ext = 1::nat\<rparr>"
  have miss: "\<forall>gc \<in> set [example_artifacts ! 1]. \<not> str_contains ''conjugator'' (filename gc)"
    by (simp add: example_artifacts_def)
  have started: "notify example_agent [(''event'', Str ''test_generation_started'')] example_world
      = (Inr (), example_world)"
    by (simp add: notify_def example_agent_def py_return_def)
  have model: "generate_content (tracking_agent example_agent) (tests_prompt example_spec)
      (ext example_world) = (Inr ''pass'', 1)"
    by (simp add: example_defs)
  have content: "''import pytest\<newline>pass''
      = (if str_contains ''import pytest'' (clean_code_block example_helpers ''pass'')
         then clean_code_block example_helpers ''pass''
         else ''import pytest\<newline>'' @ clean_code_block example_helpers ''pass'')"
    by (simp add: example_helpers_def)
  have saved: "write_fault example_helpers (files example_world) ''import pytest\<newline>pass''
      (TESTS_DIR example_helpers @ ''/test_conjugator.py'') = None"
    by (simp add: example_helpers_def)
  have completed: "notify example_agent [(''event'', Str ''test_generation_completed''),
         (''test_file'', Str (TESTS_DIR example_helpers @ ''/test_conjugator.py''))]
         (example_world\<lparr>ext := 1, files := (files example_world)
            (TESTS_DIR example_helpers @ ''/test_conjugator.py'' \<mapsto> ''import pytest\<newline>pass'')\<rparr>)
         = (Inr (), ?w')"
    by (simp add: notify_def example_defs py_return_def)
  from generate_tests_lookup_miss [OF miss started model content saved completed] miss
  show ?thesis by simp
qed

text \<open>
  Claim C4. For every text the model client returns, the test code that
  \<open>TestAgent.generate_tests\<close> returns is also the content of the test file it wrote, and it
  contains \<open>import pytest\<close>: it is the cleaned model output when that already contains the
  import, and otherwise the line \<open>import pytest\<close>, a newline, and the cleaned model output.
\<close>

theorem generate_tests_import_pytest:
  assumes "generate_tests h ag spec generated_code w = (Inr test_code, w')"
  shows "str_contains ''import pytest'' test_code
     \<and> files w' (TESTS_DIR h @ ''/test_conjugator.py'') = Some test_code
     \<and> (\<exists>x test_code0 x'.
          generate_content (tracking_agent ag) (tests_prompt spec) x = (Inr test_code0, x')
          \<and> test_code = (if str_contains ''import pytest'' (clean_code_block h test_code0)
                          then clean_code_block h test_code0
                          else ''import pytest\<newline>'' @ clean_code_block h test_code0))"
proof -
  from assms obtain w1 test_code0 w2 w3 where
    model: "on_ext (generate_content (tracking_agent ag) (tests_prompt spec)) w1
              = (Inr test_code0, w2)"
    and tc: "test_code = (if \<not> str_contains ''import pytest'' (clean_code_block h test_code0)
                then ''import pytest\<newline>'' @ clean_code_block h test_code0
                else clean_code_block h test_code0)"
    and save: "save_to_file h test_code (TESTS_DIR h @ ''/test_conjugator.py'') w2 = (Inr (), w3)"
    and fin: "notify ag [(''event'', Str ''test_generation_completed''),
                 (''test_file'', Str (TESTS_DIR h @ ''/test_conjugator.py''))] w3 = (Inr (), w')"
    by (auto simp: generate_tests_def Let_def py_bind_returns_iff py_return_eq)
  have c: "str_contains ''import pytest'' test_code"
    using str_contains_append [of "''import pytest''" "''\<newline>'' @ clean_code_block h test_code0"]
    by (simp add: tc)
  from save have "files w3 (TESTS_DIR h @ ''/test_conjugator.py'') = Some test_code"
    by (auto simp: save_to_file_def split: option.splits)
  with notify_files [OF fin]
  have f: "files w' (TESTS_DIR h @ ''/test_conjugator.py'') = Some test_code"
    by simp
  from model obtain x' where
    "generate_content (tracking_agent ag) (tests_prompt spec) (ext w1) = (Inr test_code0, x')"
    by (auto simp: on_ext_eq)
  with tc c f show ?thesis by auto
qed

theorem generate_tests_import_pytest_witness:
  "generate_tests example_helpers example_agent example_spec example_artifacts
      \<lparr>files = example_files, ext = 2\<rparr>
     = (Inr ''import pytest\<newline>pass'',
        \<lparr>files = example_files(''generated/tests/test_conjugator.py'' \<mapsto> ''import pytest\<newline>pass''),
         ext = 3\<rparr>)
   \<and> str_contains ''import pytest'' ''import pytest\<newline>pass''
   \<and> \<not> str_contains ''import pytest'' (clean_code_block example_helpers ''pass'')"
proof -
  have run: "generate_tests example_helpers example_agent example_spec example_artifacts
      \<lparr>files = example_files, ext = 2\<rparr>
     = (Inr ''import pytest\<newline>pass'',
        \<lparr>files = example_files(''generated/tests/test_conjugator.py'' \<mapsto> ''import pytest\<newline>pass''),
         ext = 3\<rparr>)"
    by (simp add: generate_tests_def example_tracker_def example_helpers_def example_agent_def
          run_defs)
  have "\<not> str_contains ''import pytest'' (clean_code_block example_helpers ''pass'')"
    by (simp add: example_helpers_def)
  with generate_tests_import_pytest [OF run] run show ?thesis by simp
qed

text \<open>
  Claim C8. With the requirement specification, the agent and the world fixed, the outcome
  of \<open>TestAgent.generate_tests\<close> (the text returned, the file written, the calls made) is
  the same for any two lists of generated artifacts: the artifact found by the lookup is
  used nowhere.
\<close>

theorem generate_tests_ignores_artifacts:
  "generate_tests h ag spec generated_code1 w = generate_tests h ag spec generated_code2 w"
  by (simp add: generate_tests_def Let_def)

section \<open>Failures in the code generator\<close>

text \<open>
  Claim C6. \<open>CodeGenAgent.generate_code\<close> raises an exception exactly when one of its
  steps does, in the order start notification, first model call, second model call, first
  write, second write, completion notification, all earlier steps having returned. The
  exception is the one the step raised and the world is the one the step left: there is no
  retry and no recovery, and the result is an exception and no list.
\<close>

theorem generate_code_propagates:
  "generate_code h ag spec design w = (Inl e, w') \<longleftrightarrow>
     notify ag [(''event'', Str ''code_generation_started'')] w = (Inl e, w')
   \<or> (\<exists>w1. notify ag [(''event'', Str ''code_generation_started'')] w = (Inr (), w1) \<and>
        (on_ext (generate_content (tracking_agent ag) (conjugator_prompt spec)) w1 = (Inl e, w')
       \<or> (\<exists>c1 w2. on_ext (generate_content (tracking_agent ag) (conjugator_prompt spec)) w1
                     = (Inr c1, w2) \<and>
        (on_ext (generate_content (tracking_agent ag) (ui_prompt spec)) w2 = (Inl e, w')
       \<or> (\<exists>c2 w3. on_ext (generate_content (tracking_agent ag) (ui_prompt spec)) w2
                     = (Inr c2, w3) \<and>
        (save_to_file h (clean_code_block h c1) (CONJUGATOR_DIR h @ ''/verb_conjugator.py'') w3
           = (Inl e, w')
       \<or> (\<exists>w4. save_to_file h (clean_code_block h c1)
                    (CONJUGATOR_DIR h @ ''/verb_conjugator.py'') w3 = (Inr (), w4) \<and>
        (save_to_file h (clean_code_block h c2) (CONJUGATOR_DIR h @ ''/gradio_ui.py'') w4
           = (Inl e, w')
       \<or> (\<exists>w5. save_to_file h (clean_code_block h c2)
                    (CONJUGATOR_DIR h @ ''/gradio_ui.py'') w4 = (Inr (), w5) \<and>
            notify ag [(''event'', Str ''code_generation_completed''),
                       (''files'', StrList [''verb_conjugator.py'', ''gradio_ui.py''])] w5
              = (Inl e, w'))))))))))"
  unfolding generate_code_def Let_def
  apply (simp add: py_bind_raises_iff py_bind_returns_iff py_return_eq
      generate_conjugator_raises_iff generate_conjugator_returns_iff
      generate_ui_raises_iff generate_ui_returns_iff)
  apply (intro iffI; elim disjE exE conjE; (simp; fail)?)
  done


theorem generate_code_propagates_witness:
  "generate_code example_helpers quota_agent example_spec () example_world
     = (Inl (Exn ''RuntimeError'' ''quota exceeded''), \<lparr>files = Map.empty, ext = 1\<rparr>)
   \<and> on_ext (generate_content (tracking_agent quota_agent) (conjugator_prompt example_spec))
        example_world = (Inr ''pass'', \<lparr>files = Map.empty, ext = 1\<rparr>)
   \<and> on_ext (generate_content (tracking_agent quota_agent) (ui_prompt example_spec))
        \<lparr>files = Map.empty, ext = 1\<rparr>
       = (Inl (Exn ''RuntimeError'' ''quota exceeded''), \<lparr>files = Map.empty, ext = 1\<rparr>)"
proof -
  have a: "notify quota_agent [(''event'', Str ''code_generation_started'')] example_world
             = (Inr (), example_world)"
    by (simp add: notify_def quota_agent_def py_return_def)
  have b: "on_ext (generate_content (tracking_agent quota_agent) (conjugator_prompt example_spec))
        example_world = (Inr ''pass'', \<lparr>files = Map.empty, ext = 1\<rparr>)"
    by (simp add: on_ext_def quota_agent_def quota_tracker_def example_world_def)
  have c: "on_ext (generate_content (tracking_agent quota_agent) (ui_prompt example_spec))
        \<lparr>files = Map.empty, ext = 1\<rparr>
       = (Inl (Exn ''RuntimeError'' ''quota exceeded''), \<lparr>files = Map.empty, ext = 1\<rparr>)"
    by (simp add: on_ext_def quota_agent_def quota_tracker_def)
  from a b c have "generate_code example_helpers quota_agent example_spec () example_world
     = (Inl (Exn ''RuntimeError'' ''quota exceeded''), \<lparr>files = Map.empty, ext = 1\<rparr>)"
    unfolding generate_code_propagates by blast
  with b c show ?thesis by simp
qed

text \<open>
  Claim C9. In \<open>CodeGenAgent.generate_code\<close> both model calls come before the first write:
  when the first or the second model call raises, the call raises that exception and the
  files are as they were before the call.
\<close>

theorem generate_code_model_failure_writes_nothing:
  assumes started: "notify ag [(''event'', Str ''code_generation_started'')] w = (Inr (), w1)"
    and failure:
      "on_ext (generate_content (tracking_agent ag) (conjugator_prompt spec)) w1 = (Inl e, w')
       \<or> (\<exists>c1 w2. on_ext (generate_content (tracking_agent ag) (conjugator_prompt spec)) w1
                     = (Inr c1, w2)
            \<and> on_ext (generate_content (tracking_agent ag) (ui_prompt spec)) w2 = (Inl e, w'))"
  shows "generate_code h ag spec design w = (Inl e, w') \<and> files w' = files w"
proof
  from failure show "generate_code h ag spec design w = (Inl e, w')"
  proof
    assume "on_ext (generate_content (tracking_agent ag) (conjugator_prompt spec)) w1 = (Inl e, w')"
    with started show ?thesis
      by (simp add: generate_code_def Let_def py_bind_def generate_conjugator_def)
  next
    assume "\<exists>c1 w2. on_ext (generate_content (tracking_agent ag) (conjugator_prompt spec)) w1
                     = (Inr c1, w2)
            \<and> on_ext (generate_content (tracking_agent ag) (ui_prompt spec)) w2 = (Inl e, w')"
    then obtain c1 w2 where
      "on_ext (generate_content (tracking_agent ag) (conjugator_prompt spec)) w1 = (Inr c1, w2)"
      "on_ext (generate_content (tracking_agent ag) (ui_prompt spec)) w2 = (Inl e, w')"
      by blast
    with started show ?thesis
      by (simp add: generate_code_def Let_def py_bind_def py_return_def generate_conjugator_def
            generate_ui_def)
  qed
  from failure have "files w' = files w1"
    by (auto dest!: on_ext_files)
  with notify_files [OF started] show "files w' = files w" by simp
qed

theorem generate_code_model_failure_writes_nothing_witness:
  "notify quota_agent [(''event'', Str ''code_generation_started'')] example_world
     = (Inr (), example_world)
   \<and> on_ext (generate_content (tracking_agent quota_agent) (conjugator_prompt example_spec))
        example_world = (Inr ''pass'', \<lparr>files = Map.empty, ext = 1\<rparr>)
   \<and> on_ext (generate_content (tracking_agent quota_agent) (ui_prompt example_spec))
        \<lparr>files = Map.empty, ext = 1\<rparr>
       = (Inl (Exn ''RuntimeError'' ''quota exceeded''), \<lparr>files = Map.empty, ext = 1\<rparr>)
   \<and> generate_code example_helpers quota_agent example_spec () example_world
       = (Inl (Exn ''RuntimeError'' ''quota exceeded''), \<lparr>files = Map.empty, ext = 1\<rparr>)
   \<and> files \<lparr>files = Map.empty, ext = 1::nat\<rparr> = files example_world"
proof -
  have a: "notify quota_agent [(''event'', Str ''code_generation_started'')] example_world
             = (Inr (), example_world)"
    by (simp add: notify_def quota_agent_def py_return_def)
  have b: "on_ext (generate_content (tracking_agent quota_agent) (conjugator_prompt example_spec))
        example_world = (Inr ''pass'', \<lparr>files = Map.empty, ext = 1\<rparr>)"
    by (simp add: on_ext_def quota_agent_def quota_tracker_def example_world_def)
  have c: "on_ext (generate_content (tracking_agent quota_agent) (ui_prompt example_spec))
        \<lparr>files = Map.empty, ext = 1\<rparr>
       = (Inl (Exn ''RuntimeError'' ''quota exceeded''), \<lparr>files = Map.empty, ext = 1\<rparr>)"
    by (simp add: on_ext_def quota_agent_def quota_tracker_def)
  from b c have d:
    "on_ext (generate_content (tracking_agent quota_agent) (conjugator_prompt example_spec))
        example_world = (Inl (Exn ''RuntimeError'' ''quota exceeded''), \<lparr>files = Map.empty, ext = 1\<rparr>)
     \<or> (\<exists>c1 w2. on_ext (generate_content (tracking_agent quota_agent)
                     (conjugator_prompt example_spec)) example_world = (Inr c1, w2)
          \<and> on_ext (generate_content (tracking_agent quota_agent) (ui_prompt example_spec)) w2
              = (Inl (Exn ''RuntimeError'' ''quota exceeded''), \<lparr>files = Map.empty, ext = 1\<rparr>))"
    by blast
  from generate_code_model_failure_writes_nothing [OF a d, of example_helpers "()"] a b c
  show ?thesis by simp
qed

section \<open>Persisted files of two runs\<close>

text \<open>
  Claim C7. Take a first successful run of the code generator and the test generator, and a
  second successful run that starts in any world \<open>w2'\<close> (whatever the first run and
  anything after it left on the disk). The second run writes to the same paths as the first:
  the two artifacts under \<open>CONJUGATOR_DIR\<close> and the test file under \<open>TESTS_DIR\<close>. After
  the first run these paths hold the first run's contents; after the second run they hold
  exactly the second run's contents, and every other path is as the second run found it.
\<close>

theorem second_run_overwrites:
  assumes first_code: "generate_code h cg spec1 design1 w0 = (Inr gs1, w1)"
    and first_tests: "generate_tests h tg spec1 gs1 w1 = (Inr t1, w2)"
    and second_code: "generate_code h cg spec2 design2 w2' = (Inr gs2, w3)"
    and second_tests: "generate_tests h tg spec2 gs2 w3 = (Inr t2, w4)"
  shows "map (\<lambda>g. CONJUGATOR_DIR h @ ''/'' @ filename g) gs2
           = map (\<lambda>g. CONJUGATOR_DIR h @ ''/'' @ filename g) gs1
     \<and> files w2 (CONJUGATOR_DIR h @ ''/verb_conjugator.py'') = Some (code (gs1 ! 0))
     \<and> files w2 (CONJUGATOR_DIR h @ ''/gradio_ui.py'') = Some (code (gs1 ! 1))
     \<and> files w2 (TESTS_DIR h @ ''/test_conjugator.py'') = Some t1
     \<and> files w4 (CONJUGATOR_DIR h @ ''/verb_conjugator.py'') = Some (code (gs2 ! 0))
     \<and> files w4 (CONJUGATOR_DIR h @ ''/gradio_ui.py'') = Some (code (gs2 ! 1))
     \<and> files w4 (TESTS_DIR h @ ''/test_conjugator.py'') = Some t2
     \<and> files w4 = (files w2')(CONJUGATOR_DIR h @ ''/verb_conjugator.py'' \<mapsto> code (gs2 ! 0),
                               CONJUGATOR_DIR h @ ''/gradio_ui.py'' \<mapsto> code (gs2 ! 1),
                               TESTS_DIR h @ ''/test_conjugator.py'' \<mapsto> t2)"
proof -
  have names1: "map filename gs1 = [''verb_conjugator.py'', ''gradio_ui.py'']"
    using first_code
    by (auto simp: generate_code_def Let_def py_bind_returns_iff py_return_eq
          generate_conjugator_returns_iff generate_ui_returns_iff)
  have names2: "map filename gs2 = [''verb_conjugator.py'', ''gradio_ui.py'']"
    using second_code
    by (auto simp: generate_code_def Let_def py_bind_returns_iff py_return_eq
          generate_conjugator_returns_iff generate_ui_returns_iff)
  from names1 names2 have paths: "map (\<lambda>g. CONJUGATOR_DIR h @ ''/'' @ filename g) gs2
           = map (\<lambda>g. CONJUGATOR_DIR h @ ''/'' @ filename g) gs1"
  proof -
    have m: "map (\<lambda>g. CONJUGATOR_DIR h @ ''/'' @ filename g) gs
            = map (\<lambda>n. CONJUGATOR_DIR h @ ''/'' @ n) (map filename gs)" for gs :: "GeneratedCode list"
      by (simp add: comp_def)
    show ?thesis by (simp only: m names1 names2)
  qed
  note f1 = generate_code_persists [OF first_code]
  note f2 = generate_code_persists [OF second_code]
  note t1 = generate_tests_persists [OF first_tests]
  note t2 = generate_tests_persists [OF second_tests]
  have d: "CONJUGATOR_DIR h @ ''/verb_conjugator.py'' \<noteq> TESTS_DIR h @ ''/test_conjugator.py''"
    "CONJUGATOR_DIR h @ ''/gradio_ui.py'' \<noteq> TESTS_DIR h @ ''/test_conjugator.py''"
    "CONJUGATOR_DIR h @ ''/verb_conjugator.py'' \<noteq> CONJUGATOR_DIR h @ ''/gradio_ui.py''"
    using conjugator_path_not_tests_path ui_path_not_tests_path by simp_all
  have w2: "files w2 = (files w0)(CONJUGATOR_DIR h @ ''/verb_conjugator.py'' \<mapsto> code (gs1 ! 0),
                            CONJUGATOR_DIR h @ ''/gradio_ui.py'' \<mapsto> code (gs1 ! 1),
                            TESTS_DIR h @ ''/test_conjugator.py'' \<mapsto> t1)"
    by (simp only: t1 f1)
  have w4: "files w4 = (files w2')(CONJUGATOR_DIR h @ ''/verb_conjugator.py'' \<mapsto> code (gs2 ! 0),
                            CONJUGATOR_DIR h @ ''/gradio_ui.py'' \<mapsto> code (gs2 ! 1),
                            TESTS_DIR h @ ''/test_conjugator.py'' \<mapsto> t2)"
    by (simp only: t2 f2)
  have upd3: "(m(p \<mapsto> a, q \<mapsto> b, r \<mapsto> c)) p = Some a
     \<and> (m(p \<mapsto> a, q \<mapsto> b, r \<mapsto> c)) q = Some b
     \<and> (m(p \<mapsto> a, q \<mapsto> b, r \<mapsto> c)) r = Some c"
    if "p \<noteq> r" "q \<noteq> r" "p \<noteq> q" for m :: fs and p q r a b c
    using that by (simp only: fun_upd_apply) simp
  from upd3 [OF d, of "files w0" "code (gs1 ! 0)" "code (gs1 ! 1)" t1]
    upd3 [OF d, of "files w2'" "code (gs2 ! 0)" "code (gs2 ! 1)" t2]
  show ?thesis
    unfolding w2 [symmetric] w4 [symmetric] using paths w4 by blast
qed

theorem second_run_overwrites_witness:
  "generate_code example_helpers example_agent example_spec () example_world
     = (Inr example_artifacts, first_world_code)
   \<and> generate_tests example_helpers example_agent example_spec example_artifacts first_world_code
     = (Inr ''import pytest\<newline>pass'', first_world_tests)
   \<and> generate_code example_helpers example_agent example_spec () first_world_tests
     = (Inr second_artifacts, second_world_code)
   \<and> generate_tests example_helpers example_agent example_spec second_artifacts second_world_code
     = (Inr ''import pytest\<newline>x = 1'', second_world_tests)
   \<and> files first_world_tests ''generated/conjugator/verb_conjugator.py'' = Some ''pass''
   \<and> files second_world_tests ''generated/conjugator/verb_conjugator.py'' = Some ''x = 1''
   \<and> files second_world_tests ''generated/conjugator/gradio_ui.py'' = Some ''x = 1''
   \<and> files second_world_tests ''generated/tests/test_conjugator.py''
       = Some ''import pytest\<newline>x = 1''"
  using second_run_overwrites [OF first_run_code first_run_tests second_run_code second_run_tests]
    first_run_code first_run_tests second_run_code second_run_tests
  by (simp add: example_helpers_def example_artifacts_def second_artifacts_def)

section \<open>The orchestrator\<close>

text \<open>
  Claim C1. \<open>generate_application\<close> returns a tuple of five strings for every requirements
  text: in the model its result is a plain tuple, an exception being no possible outcome.
  When a step of the pipeline raises, so that the \<open>try\<close> block raises \<open>e\<close> (lemma
  \<open>generate_application_try_raises_iff\<close>), the first element is the error string built
  from \<open>str(e)\<close>, which is not empty, and the other four elements are empty strings.
\<close>

theorem generate_application_error_tuple:
  "(\<exists>status full_code test_code usage_report instructions w'.
      generate_application ui requirements w
        = ((status, full_code, test_code, usage_report, instructions), w'))
   \<and> (\<forall>e w'. generate_application_try ui requirements w = (Inl e, w') \<longrightarrow>
        generate_application ui requirements w
          = (([CHR 0xE2, CHR 0x9D, CHR 0x8C] @ '' Error: '' @ exn_str e, [], [], [], []), w')
        \<and> [CHR 0xE2, CHR 0x9D, CHR 0x8C] @ '' Error: '' @ exn_str e \<noteq> [])"
proof
  obtain out w' where "generate_application ui requirements w = (out, w')"
    by (cases "generate_application ui requirements w")
  then show "\<exists>status full_code test_code usage_report instructions w'.
      generate_application ui requirements w
        = ((status, full_code, test_code, usage_report, instructions), w')"
    by (cases out) auto
  show "\<forall>e w'. generate_application_try ui requirements w = (Inl e, w') \<longrightarrow>
        generate_application ui requirements w
          = (([CHR 0xE2, CHR 0x9D, CHR 0x8C] @ '' Error: '' @ exn_str e, [], [], [], []), w')
        \<and> [CHR 0xE2, CHR 0x9D, CHR 0x8C] @ '' Error: '' @ exn_str e \<noteq> []"
    by (simp add: generate_application_def)
qed

theorem generate_application_error_tuple_witness:
  "generate_application_try quota_ui ''Make a French conjugator'' example_world
     = (Inl (Exn ''RuntimeError'' ''quota exceeded''), \<lparr>files = Map.empty, ext = 1\<rparr>)
   \<and> generate_application quota_ui ''Make a French conjugator'' example_world
     = (([CHR 0xE2, CHR 0x9D, CHR 0x8C] @ '' Error: quota exceeded'', [], [], [], []),
        \<lparr>files = Map.empty, ext = 1\<rparr>)"
  using generate_application_error_tuple [of quota_ui "''Make a French conjugator''" example_world]
    quota_run
  by simp

text \<open>
  Claim C5. On every successful run the orchestrator calls the five steps once each and in
  the order requirement parsing, design creation, code generation, test generation, saving
  of the usage report: the run with the logging wrappers ends with the same outputs and the
  same world, and its log is exactly these five entries.
\<close>

theorem successful_run_five_steps_in_order:
  assumes "generate_application_try ui requirements w = (Inr out, w')"
  shows "generate_application_try (traced ui) requirements ([], w)
           = (Inr out, ([ParseRequirements, CreateDesign, GenerateCode, GenerateTests,
                         SaveUsageReport], w'))"
proof -
  from assms obtain spec w1 design w2 generated_code w3 test_code w4 w5 conjugator_code w6
      ui_code w7 usage_report where
    steps: "parser_agent ui requirements w = (Inr spec, w1)"
      "design_agent ui spec w1 = (Inr design, w2)"
      "code_gen_agent ui spec design w2 = (Inr generated_code, w3)"
      "test_agent ui spec generated_code w3 = (Inr test_code, w4)"
      "save_usage_report ui w4 = (Inr (), w5)"
      "load_from_file ui ''generated/conjugator/verb_conjugator.py'' w5 = (Inr conjugator_code, w6)"
      "load_from_file ui ''generated/conjugator/gradio_ui.py'' w6 = (Inr ui_code, w7)"
      "load_from_file ui (USAGE_REPORT_FILE ui) w7 = (Inr usage_report, w')"
    unfolding generate_application_try_def Let_def
    by (auto simp: py_bind_returns_iff py_return_eq simp del: append.simps)
  from assms steps show ?thesis
    unfolding generate_application_try_def Let_def traced_def
    by (simp add: logged_def unlogged_def py_bind_def py_return_def del: append.simps)
qed


theorem successful_run_five_steps_in_order_witness:
  "generate_application_try example_ui ''Make a French conjugator'' example_world
     = (Inr example_outputs, example_world_end)
   \<and> generate_application_try (traced example_ui) ''Make a French conjugator''
        ([], example_world)
     = (Inr example_outputs,
        ([ParseRequirements, CreateDesign, GenerateCode, GenerateTests, SaveUsageReport],
         example_world_end))"
  using successful_run_five_steps_in_order [OF example_run] example_run by simp

section \<open>The generated conjugator\<close>

text \<open>
  Claim C10, amended. \<open>VerbConjugator.conjugate\<close> raises the \<open>ValueError\<close> of its first
  statement when the conjugator is \<open>None\<close>, and prints nothing then. With a conjugator
  present, an exception that leaves the method is one that the \<open>print\<close> of the outer
  handler raised, so the method returns a dictionary whenever the standard output takes
  every text. A call that asks only for tenses outside the supported ones, or only for
  persons outside the supported ones, returns the empty dictionary and prints nothing,
  whatever the standard output does; in general the unsupported names are dropped without
  notice, the call having the same outcome as the call without them.
\<close>

theorem conjugate_raises_amended:
  "(conjugator self = None \<longrightarrow>
      conjugate lower print_fault self verb tenses_arg persons_arg out
        = (Inl (Exn ''ValueError''
                 (''Conjugator not initialized for language '' @ [CHR 0x27] @ language self
                    @ [CHR 0x27] @ ''. Please check initialization.'')), out))
   \<and> (conjugator self \<noteq> None \<longrightarrow>
        (\<forall>e out'. conjugate lower print_fault self verb tenses_arg persons_arg out = (Inl e, out')
           \<longrightarrow> (\<exists>e'. print_fault out'
                        (''An unexpected error occurred during conjugation of ''
                           @ [CHR 0x27] @ verb @ [CHR 0x27] @ '': '' @ exn_str e') = Some e))
      \<and> ((\<forall>out text. print_fault out text = None) \<longrightarrow>
           (\<exists>d out'. conjugate lower print_fault self verb tenses_arg persons_arg out
                       = (Inr d, out')))
      \<and> ((\<exists>ts. tenses_arg = Some ts \<and> (\<forall>t \<in> set ts. lower t \<notin> set (map fst supported_tenses)))
           \<or> (\<exists>ps. persons_arg = Some ps
                  \<and> (\<forall>p \<in> set ps. lower p \<notin> set (map fst supported_persons)))
          \<longrightarrow> conjugate lower print_fault self verb tenses_arg persons_arg out = (Inr [], out)))
   \<and> conjugate lower print_fault self verb
         (map_option (filter (\<lambda>t. lower t \<in> set (map fst supported_tenses))) tenses_arg)
         (map_option (filter (\<lambda>p. lower p \<in> set (map fst supported_persons))) persons_arg)
       = conjugate lower print_fault self verb tenses_arg persons_arg"
proof (intro conjI impI allI)
  assume "conjugator self = None"
  then show "conjugate lower print_fault self verb tenses_arg persons_arg out
        = (Inl (Exn ''ValueError''
                 (''Conjugator not initialized for language '' @ [CHR 0x27] @ language self
                    @ [CHR 0x27] @ ''. Please check initialization.'')), out)"
    by (simp add: conjugate_def py_raise_def)
next
  fix e out'
  assume "conjugator self \<noteq> None"
    and raised: "conjugate lower print_fault self verb tenses_arg persons_arg out = (Inl e, out')"
  then obtain c where c: "conjugator self = Some c" by auto
  with raised have
    "py_try (conjugate_tenses print_fault c verb
               (case tenses_arg of None \<Rightarrow> map snd supported_tenses
                | Some ts \<Rightarrow> select_supported lower supported_tenses ts)
               (case persons_arg of None \<Rightarrow> map snd supported_persons
                | Some ps \<Rightarrow> select_supported lower supported_persons ps) [])
       (\<lambda>e. py_bind (py_print print_fault
                        (''An unexpected error occurred during conjugation of ''
                           @ [CHR 0x27] @ verb @ [CHR 0x27] @ '': '' @ exn_str e))
              (\<lambda>_. py_return [])) out = (Inl e, out')"
    by (simp add: conjugate_def Let_def del: append.simps)
  then show "\<exists>e'. print_fault out'
                        (''An unexpected error occurred during conjugation of ''
                           @ [CHR 0x27] @ verb @ [CHR 0x27] @ '': '' @ exn_str e') = Some e"
    by (rule py_try_print_raises)
next
  assume "conjugator self \<noteq> None" and ok: "\<forall>out text. print_fault out text = None"
  then obtain c where c: "conjugator self = Some c" by auto
  from conjugate_tenses_returns [OF ok] obtain d out' where
    "conjugate_tenses print_fault c verb
       (case tenses_arg of None \<Rightarrow> map snd supported_tenses
        | Some ts \<Rightarrow> select_supported lower supported_tenses ts)
       (case persons_arg of None \<Rightarrow> map snd supported_persons
        | Some ps \<Rightarrow> select_supported lower supported_persons ps) [] out = (Inr d, out')"
    by blast
  then have "conjugate lower print_fault self verb tenses_arg persons_arg out = (Inr d, out')"
    by (simp add: conjugate_def Let_def c py_try_def del: append.simps)
  then show "\<exists>d out'. conjugate lower print_fault self verb tenses_arg persons_arg out = (Inr d, out')"
    by blast
next
  assume "conjugator self \<noteq> None"
    and "(\<exists>ts. tenses_arg = Some ts \<and> (\<forall>t \<in> set ts. lower t \<notin> set (map fst supported_tenses)))
           \<or> (\<exists>ps. persons_arg = Some ps
                  \<and> (\<forall>p \<in> set ps. lower p \<notin> set (map fst supported_persons)))"
  then show "conjugate lower print_fault self verb tenses_arg persons_arg out = (Inr [], out)"
    by (auto simp: conjugate_def Let_def select_supported_none conjugate_tenses_no_persons
          py_try_def py_return_def simp del: set_map split: option.splits)
next
  show "conjugate lower print_fault self verb
         (map_option (filter (\<lambda>t. lower t \<in> set (map fst supported_tenses))) tenses_arg)
         (map_option (filter (\<lambda>p. lower p \<in> set (map fst supported_persons))) persons_arg)
       = conjugate lower print_fault self verb tenses_arg persons_arg"
    by (rule conjugate_filtered)
qed

theorem conjugate_raises_amended_witness:
  "conjugator uninitialised = None
   \<and> conjugate ascii_lower ascii_stdout uninitialised ''hablar'' None None []
       = (Inl (Exn ''ValueError''
                 (''Conjugator not initialized for language '' @ [CHR 0x27] @ ''es''
                    @ [CHR 0x27] @ ''. Please check initialization.'')), [])
   \<and> conjugator french \<noteq> None
   \<and> ascii_lower ''past_perfect'' \<notin> set (map fst supported_tenses)
   \<and> conjugate ascii_lower ascii_stdout french ''manger'' (Some [''past_perfect'']) None []
       = (Inr [], [])
   \<and> (\<exists>d out'. conjugate ascii_lower plain_stdout french ''manger'' None None [] = (Inr d, out'))
   \<and> conjugate ascii_lower ascii_stdout french ([CHR 0xC3, CHR 0xAA] @ ''tre'') None None []
       = (Inl (Exn ''UnicodeEncodeError'' ''ordinal not in range(128)''), [])
   \<and> (\<exists>e'. ascii_stdout []
              (''An unexpected error occurred during conjugation of '' @ [CHR 0x27]
                 @ [CHR 0xC3, CHR 0xAA] @ ''tre'' @ [CHR 0x27] @ '': '' @ exn_str e')
            = Some (Exn ''UnicodeEncodeError'' ''ordinal not in range(128)''))"
proof -
  note a = conjugate_raises_amended
             [of uninitialised ascii_lower ascii_stdout "''hablar''" None None "[]"]
  note b = conjugate_raises_amended
             [of french ascii_lower ascii_stdout "''manger''" "Some [''past_perfect'']" None "[]"]
  note c = conjugate_raises_amended
             [of french ascii_lower plain_stdout "''manger''" None None "[]"]
  note d = conjugate_raises_amended
             [of french ascii_lower ascii_stdout "[CHR 0xC3, CHR 0xAA] @ ''tre''" None None "[]"]
  have u: "conjugator uninitialised = None"
    by (simp add: uninitialised_def)
  have l: "language uninitialised = ''es''"
    by (simp add: uninitialised_def)
  have f: "conjugator french \<noteq> None"
    by (simp add: french_def)
  have t: "ascii_lower ''past_perfect'' \<notin> set (map fst supported_tenses)"
    by (simp add: ascii_lower_def supported_tenses_def)
  have p: "\<forall>out text. plain_stdout out text = None"
    by (simp add: plain_stdout_def)
  have r: "conjugate ascii_lower ascii_stdout french ([CHR 0xC3, CHR 0xAA] @ ''tre'') None None []
       = (Inl (Exn ''UnicodeEncodeError'' ''ordinal not in range(128)''), [])"
    by (simp add: conjugator_defs french_def example_mlconjug_def ascii_stdout_def)
  from a u l have 1: "conjugate ascii_lower ascii_stdout uninitialised ''hablar'' None None []
       = (Inl (Exn ''ValueError''
                 (''Conjugator not initialized for language '' @ [CHR 0x27] @ ''es''
                    @ [CHR 0x27] @ ''. Please check initialization.'')), [])"
    by simp
  from b f t have 2:
    "conjugate ascii_lower ascii_stdout french ''manger'' (Some [''past_perfect'']) None []
       = (Inr [], [])"
    by simp
  from c f p have 3:
    "\<exists>d out'. conjugate ascii_lower plain_stdout french ''manger'' None None [] = (Inr d, out')"
    by blast
  from d f r have 4: "\<exists>e'. ascii_stdout []
              (''An unexpected error occurred during conjugation of '' @ [CHR 0x27]
                 @ ([CHR 0xC3, CHR 0xAA] @ ''tre'') @ [CHR 0x27] @ '': '' @ exn_str e')
            = Some (Exn ''UnicodeEncodeError'' ''ordinal not in range(128)'')"
    by blast
  from 4 have 5: "\<exists>e'. ascii_stdout []
              (''An unexpected error occurred during conjugation of '' @ [CHR 0x27]
                 @ [CHR 0xC3, CHR 0xAA] @ ''tre'' @ [CHR 0x27] @ '': '' @ exn_str e')
            = Some (Exn ''UnicodeEncodeError'' ''ordinal not in range(128)'')"
    by simp
  from u 1 f t 2 3 r 5 show ?thesis by blast
qed

text \<open>
  Claim C10 as first stated, that \<open>conjugate\<close> raises a \<open>ValueError\<close> only when the
  conjugator is \<open>None\<close>, fails. On a standard output that encodes to ASCII, with a
  conjugator present and a verb the library does not know, the warning for
  \<open>[CHR 0xC3, CHR 0xAA] @ ''tre''\<close> cannot be printed; neither can the message of the inner
  handler nor that of the outer handler, and the \<open>UnicodeEncodeError\<close> of the last one, a
  \<open>ValueError\<close>, leaves the method.
\<close>

theorem conjugate_raises_with_conjugator:
  "conjugator french \<noteq> None
   \<and> conjugate ascii_lower ascii_stdout french ([CHR 0xC3, CHR 0xAA] @ ''tre'') None None []
       = (Inl (Exn ''UnicodeEncodeError'' ''ordinal not in range(128)''), [])
   \<and> is_ValueError (Exn ''UnicodeEncodeError'' ''ordinal not in range(128)'')"
  by (simp add: conjugator_defs french_def example_mlconjug_def ascii_stdout_def
        is_ValueError_def)

end
